theory Spec2Isabelle
  imports Main
begin

section \<open>Strings as the Python code uses them\<close>

text \<open>
  Strings are lists of characters, a character being a code point below 256.
  \<open>str.isspace\<close> holds there for the codes 9 to 13, 28 to 32, 133 and 160, and these are
  what \<open>str.strip\<close> removes; \<open>str.lower\<close> maps \<open>A..Z\<close> to \<open>a..z\<close> and the capital letters
  192 to 222 (215, the multiplication sign, apart) to the letters 32 above them.
\<close>

definition is_space :: "char \<Rightarrow> bool" where
  "is_space c =
     (let n = (of_char c :: nat)
      in (9 \<le> n \<and> n \<le> 13) \<or> (28 \<le> n \<and> n \<le> 32) \<or> n = 133 \<or> n = 160)"

definition lower_char :: "char \<Rightarrow> char" where
  "lower_char c =
     (let n = (of_char c :: nat)
      in if (65 \<le> n \<and> n \<le> 90) \<or> (192 \<le> n \<and> n \<le> 222 \<and> n \<noteq> 215)
         then char_of (n + 32) else c)"

definition lower :: "string \<Rightarrow> string" where
  "lower s = map lower_char s"

definition strip :: "string \<Rightarrow> string" where
  "strip s = rev (dropWhile is_space (rev (dropWhile is_space s)))"

text \<open>\<open>starts_with p s\<close> is \<open>s.startswith(p)\<close>; \<open>contains p s\<close> is \<open>p in s\<close>.\<close>

fun starts_with :: "string \<Rightarrow> string \<Rightarrow> bool" where
  "starts_with [] s = True"
| "starts_with (p # ps) [] = False"
| "starts_with (p # ps) (c # cs) = (p = c \<and> starts_with ps cs)"

fun contains :: "string \<Rightarrow> string \<Rightarrow> bool" where
  "contains p [] = (p = [])"
| "contains p (c # cs) = (starts_with p (c # cs) \<or> contains p cs)"

text \<open>
  \<open>after_first sep s\<close> is \<open>s.split(sep, 1)[1]\<close>: the text after the first occurrence of
  \<open>sep\<close>, and \<open>None\<close> where \<open>sep\<close> does not occur (the index 1 does not exist there).
  \<open>before_first c s\<close> is \<open>s.split(c)[0]\<close> for a one-character separator.
\<close>

fun after_first :: "string \<Rightarrow> string \<Rightarrow> string option" where
  "after_first sep [] = (if sep = [] then Some [] else None)"
| "after_first sep (c # cs) =
     (if starts_with sep (c # cs) then Some (drop (length sep) (c # cs))
      else after_first sep cs)"

definition before_first :: "char \<Rightarrow> string \<Rightarrow> string" where
  "before_first c s = takeWhile (\<lambda>x. x \<noteq> c) s"

section \<open>Failures and the error classifier (q_get_videos.py)\<close>

text \<open>
  An exception object, as far as the classifier and the error log read it:
  whether it is an instance of \<open>socket.timeout\<close> or \<open>TimeoutError\<close>, its \<open>msg\<close> attribute
  (\<open>None\<close> when the attribute is absent or is \<open>None\<close>), the text \<open>str(exc)\<close>, and its
  \<open>__cause__\<close>.
\<close>

datatype failure =
  Failure (timeout_instance: bool) (msg_attr: "string option") (str_text: string)
          (cause: "failure option")

text \<open>\<open>getattr(exc, "msg", None) or str(exc)\<close>: an absent or empty \<open>msg\<close> falls back to \<open>str(exc)\<close>.\<close>

definition message :: "failure \<Rightarrow> string" where
  "message e = (case msg_attr e of
                  None \<Rightarrow> str_text e
                | Some m \<Rightarrow> (if m = [] then str_text e else m))"

fun is_timeout_error :: "failure \<Rightarrow> bool" where
  "is_timeout_error (Failure inst m s c) =
     (if inst then True
      else let msg = lower (message (Failure inst m s c)) in
        if contains ''timeout'' msg \<or> contains ''timed out'' msg then True
        else (case c of
                None \<Rightarrow> False
              | Some inner \<Rightarrow> is_timeout_error inner))"

fun is_rate_limit_error :: "failure \<Rightarrow> bool" where
  "is_rate_limit_error (Failure inst m s c) =
     (let msg = lower (message (Failure inst m s c)) in
        if contains ''429'' msg \<or> contains ''rate limit'' msg
           \<or> contains ''too many requests'' msg then True
        else (case c of
                None \<Rightarrow> False
              | Some inner \<Rightarrow> is_rate_limit_error inner))"

text \<open>
  The verdict is the order in which the handler of \<open>on_message\<close> asks the two predicates:
  first \<open>is_timeout_error\<close>, then \<open>is_rate_limit_error\<close>, and the rest is logged and skipped.
\<close>

datatype verdict = Timeout | RateLimited | Other

definition classify :: "failure \<Rightarrow> verdict" where
  "classify e = (if is_timeout_error e then Timeout
                 else if is_rate_limit_error e then RateLimited
                 else Other)"

section \<open>JSON values\<close>

text \<open>
  What \<open>json.loads\<close> returns and \<open>json.dump\<close> writes. Numbers are integers here; no
  function below computes with them.
\<close>

datatype json =
  JNull | JBool bool | JNum int | JStr string | JArr "json list" | JObj "(string \<times> json) list"

text \<open>Python's truth value of such a value (\<open>not v\<close> is its negation).\<close>

fun truthy :: "json \<Rightarrow> bool" where
  "truthy JNull = False"
| "truthy (JBool b) = b"
| "truthy (JNum n) = (n \<noteq> 0)"
| "truthy (JStr s) = (s \<noteq> [])"
| "truthy (JArr xs) = (xs \<noteq> [])"
| "truthy (JObj kvs) = (kvs \<noteq> [])"

fun is_str :: "json \<Rightarrow> bool" where
  "is_str (JStr s) = True"
| "is_str _ = False"

fun type_name :: "json \<Rightarrow> string" where
  "type_name JNull = ''NoneType''"
| "type_name (JBool b) = ''bool''"
| "type_name (JNum n) = ''int''"
| "type_name (JStr s) = ''str''"
| "type_name (JArr xs) = ''list''"
| "type_name (JObj kvs) = ''dict''"

section \<open>The worker: q_get_videos.py\<close>

subsection \<open>Video ids and metadata records\<close>

text \<open>
  \<open>a or b\<close> on optional strings: \<open>a\<close> when it is a non-empty string, else \<open>b\<close> as it is.
  \<open>or_str\<close> is the same with a string as the fallback.
\<close>

definition or_else :: "string option \<Rightarrow> string option \<Rightarrow> string option" where
  "or_else a b = (case a of None \<Rightarrow> b | Some s \<Rightarrow> (if s = [] then b else Some s))"

definition or_str :: "string option \<Rightarrow> string \<Rightarrow> string" where
  "or_str a b = (case a of None \<Rightarrow> b | Some s \<Rightarrow> (if s = [] then b else s))"

text \<open>
  Each branch tests \<open>sep in url\<close> before it splits, so the split always has a second
  part; the \<open>None\<close> case of \<open>after_first\<close> under the test is never taken
  (lemma \<open>contains_after_first\<close>).
\<close>

definition video_id_from_url :: "string \<Rightarrow> string option" where
  "video_id_from_url url =
     (if contains ''watch?v='' url then
        (case after_first ''watch?v='' url of
           Some rest \<Rightarrow> Some (strip (before_first (CHR ''&'') rest))
         | None \<Rightarrow> None)
      else if contains ''youtu.be/'' url then
        (case after_first ''youtu.be/'' url of
           Some rest \<Rightarrow> Some (strip (before_first (CHR ''?'') rest))
         | None \<Rightarrow> None)
      else None)"

text \<open>
  The fields of yt-dlp's info dict that the worker reads; an absent key and a \<open>None\<close>
  value are both \<open>None\<close>, as \<open>dict.get\<close> returns them.
\<close>

record info =
  info_id :: "string option"
  info_channel :: "string option"
  info_uploader :: "string option"
  info_duration :: "int option"
  info_title :: "string option"
  info_description :: "string option"

record meta =
  meta_id :: "string option"
  meta_channel :: string
  meta_duration :: "int option"
  meta_title :: string
  meta_description :: string

text \<open>
  \<open>extract_info\<close> stands for the external part of \<open>download_and_collect_metadata\<close>
  (creating the downloads directory, building the \<open>YoutubeDL\<close> object and calling
  \<open>ydl.extract_info(url, download=True)\<close>): \<open>Inl e\<close> when it raises \<open>e\<close>, \<open>Inr None\<close> when the
  info it returns is falsy, \<open>Inr (Some i)\<close> otherwise.
\<close>

type_synonym extractor = "string \<Rightarrow> failure + info option"

definition download_and_collect_metadata :: "extractor \<Rightarrow> string \<Rightarrow> failure + meta option" where
  "download_and_collect_metadata extract_info url =
     (case extract_info url of
        Inl e \<Rightarrow> Inl e
      | Inr None \<Rightarrow> Inr None
      | Inr (Some i) \<Rightarrow>
          Inr (Some \<lparr> meta_id = or_else (info_id i) (video_id_from_url url),
                      meta_channel = or_str (or_else (info_channel i) (info_uploader i)) [],
                      meta_duration = info_duration i,
                      meta_title = or_str (info_title i) [],
                      meta_description = strip (or_str (info_description i) []) \<rparr>))"

definition meta_json :: "meta \<Rightarrow> json" where
  "meta_json m =
     JObj [(''id'', case meta_id m of None \<Rightarrow> JNull | Some v \<Rightarrow> JStr v),
           (''channel'', JStr (meta_channel m)),
           (''duration'', case meta_duration m of None \<Rightarrow> JNull | Some n \<Rightarrow> JNum n),
           (''title'', JStr (meta_title m)),
           (''description'', JStr (meta_description m))]"

subsection \<open>The metadata store\<close>

text \<open>
  The file \<open>downloaded_videos.json\<close>, by what the library calls of \<open>load_metadata\<close> do
  on it:
  \<^item> \<open>Missing\<close>: \<open>METADATA_JSON.exists()\<close> is false;
  \<^item> \<open>Unreadable\<close>: \<open>open\<close> or \<open>read\<close> raises \<open>OSError\<close>;
  \<^item> \<open>Undecodable t\<close>: the bytes are not UTF-8, so \<open>f.read()\<close> raises a
    \<open>UnicodeDecodeError\<close> whose text is \<open>t\<close>;
  \<^item> \<open>Blank\<close>: the text is empty after \<open>strip()\<close>;
  \<^item> \<open>Malformed\<close>: \<open>json.loads\<close> raises \<open>JSONDecodeError\<close> on the text;
  \<^item> \<open>Document v\<close>: \<open>json.loads\<close> returns \<open>v\<close>.

  A file written in full by \<open>save_metadata\<close> is one that \<open>json.loads\<close> reads back as the
  value written.
\<close>

datatype store_file =
  Missing | Unreadable | Undecodable string | Blank | Malformed | Document json

text \<open>
  The handler \<open>except (json.JSONDecodeError, OSError)\<close> returns the empty list.
  \<open>UnicodeDecodeError\<close> is a \<open>ValueError\<close> and neither of the two, so it leaves the
  function; it has no \<open>msg\<close> attribute and no cause.
\<close>

fun load_metadata :: "store_file \<Rightarrow> failure + json" where
  "load_metadata Missing = Inr (JArr [])"
| "load_metadata Unreadable = Inr (JArr [])"
| "load_metadata (Undecodable t) = Inl (Failure False None t None)"
| "load_metadata Blank = Inr (JArr [])"
| "load_metadata Malformed = Inr (JArr [])"
| "load_metadata (Document v) = Inr v"

text \<open>
  \<open>records.append(meta)\<close>: only a list has \<open>append\<close>; on any other value Python raises
  \<open>AttributeError\<close>.
\<close>

fun append_record :: "json \<Rightarrow> json \<Rightarrow> failure + json" where
  "append_record (JArr xs) m = Inr (JArr (xs @ [m]))"
| "append_record v m =
     Inl (Failure False None
            ([CHR 0x27] @ type_name v @ [CHR 0x27] @ '' object has no attribute ''
             @ [CHR 0x27] @ ''append'' @ [CHR 0x27]) None)"

subsection \<open>The state the worker acts on\<close>

text \<open>
  \<open>calls\<close> lists, in order, the acknowledgements sent on the channel and the calls of
  \<open>time.sleep\<close>; \<open>error_log\<close> lists the lines appended to \<open>download_errors.log\<close>, one entry
  for each \<open>f.write(line)\<close>; \<open>consuming\<close> is false once \<open>stop_consuming\<close> was called.
  Console output is not part of the state.
\<close>

datatype call = Basic_ack nat | Basic_nack nat bool | Sleep nat

text \<open>
  How a write of the metadata file goes. \<open>Written\<close>: \<open>open\<close> and \<open>json.dump\<close> both
  succeed. \<open>Open_fails e\<close>: \<open>open(METADATA_JSON, "w")\<close> raises \<open>e\<close> and the file is as it
  was. \<open>Dump_fails e r\<close>: the file was opened, hence truncated, and \<open>json.dump\<close> raises
  \<open>e\<close>; what it leaves is a proper prefix of the text of a JSON array, which is never a
  JSON text itself: nothing at all, a cut text, or bytes cut inside a character (read
  back with the decode error \<open>t\<close>).
\<close>

datatype remnant = Nothing_written | Cut_text | Cut_bytes string

fun left_over :: "remnant \<Rightarrow> store_file" where
  "left_over Nothing_written = Blank"
| "left_over Cut_text = Malformed"
| "left_over (Cut_bytes t) = Undecodable t"

datatype write_outcome = Written | Open_fails failure | Dump_fails failure remnant

text \<open>
  \<open>disk\<close> tells for each value how writing it to the metadata file goes. The calls on
  the channel and \<open>time.sleep\<close> are taken to succeed while a delivery is handled; a
  failure of the broker is an event of the consuming loop below.
\<close>

record state =
  metadata_file :: store_file
  disk :: "json \<Rightarrow> write_outcome"
  error_log :: "string list"
  calls :: "call list"
  consuming :: bool
  timeout_occurred :: bool
  rate_limit_occurred :: bool

record delivery =
  delivery_tag :: nat
  body :: string

definition DELAY_BETWEEN_DOWNLOADS_SEC :: nat where
  "DELAY_BETWEEN_DOWNLOADS_SEC = 5"

definition basic_ack :: "nat \<Rightarrow> state \<Rightarrow> state" where
  "basic_ack t s = s\<lparr>calls := calls s @ [Basic_ack t]\<rparr>"

definition basic_nack :: "nat \<Rightarrow> bool \<Rightarrow> state \<Rightarrow> state" where
  "basic_nack t requeue s = s\<lparr>calls := calls s @ [Basic_nack t requeue]\<rparr>"

definition stop_consuming :: "state \<Rightarrow> state" where
  "stop_consuming s = s\<lparr>consuming := False\<rparr>"

definition sleep :: "nat \<Rightarrow> state \<Rightarrow> state" where
  "sleep n s = s\<lparr>calls := calls s @ [Sleep n]\<rparr>"

text \<open>\<open>now\<close> is the text of \<open>datetime.now().isoformat()\<close> at the time of the call.\<close>

definition log_error :: "string \<Rightarrow> string \<Rightarrow> failure \<Rightarrow> state \<Rightarrow> state" where
  "log_error now video_id error s =
     (let detail = map (\<lambda>c. if c = CHR 0x0A then CHR '' '' else c) (strip (message error));
          detail = (if length detail > 200 then take 197 detail @ ''...'' else detail);
          line = now @ '' video_id='' @ video_id @ '' '' @ detail @ [CHR 0x0A]
      in s\<lparr>error_log := error_log s @ [line]\<rparr>)"

subsection \<open>Handling one delivery\<close>

text \<open>
  \<open>save_metadata\<close> returns the new state, or the exception it raises together with the
  state it leaves behind. A file that could not be opened for reading stays so.
\<close>

definition overwrite :: "store_file \<Rightarrow> store_file \<Rightarrow> store_file" where
  "overwrite old new = (case old of Unreadable \<Rightarrow> Unreadable | _ \<Rightarrow> new)"

definition save_metadata :: "json \<Rightarrow> state \<Rightarrow> (failure \<times> state) + state" where
  "save_metadata records s =
     (case disk s records of
        Written \<Rightarrow> Inr (s\<lparr>metadata_file := overwrite (metadata_file s) (Document records)\<rparr>)
      | Open_fails e \<Rightarrow> Inl (e, s)
      | Dump_fails e r \<Rightarrow>
          Inl (e, s\<lparr>metadata_file := overwrite (metadata_file s) (left_over r)\<rparr>))"

text \<open>
  The \<open>try\<close> block of \<open>on_message\<close>. It raises from the download, from \<open>load_metadata\<close>,
  from \<open>append\<close> or from \<open>save_metadata\<close>; the result for a raise is the exception and the
  state at that moment, in which the handler then runs.
\<close>

definition on_message_try ::
  "extractor \<Rightarrow> string \<Rightarrow> nat \<Rightarrow> state \<Rightarrow> (failure \<times> state) + state" where
  "on_message_try extract_info url t s =
     (case download_and_collect_metadata extract_info url of
        Inl e \<Rightarrow> Inl (e, s)
      | Inr None \<Rightarrow> Inr (sleep DELAY_BETWEEN_DOWNLOADS_SEC (basic_ack t s))
      | Inr (Some m) \<Rightarrow>
          (case load_metadata (metadata_file s) of
             Inl e \<Rightarrow> Inl (e, s)
           | Inr records \<Rightarrow>
               (case append_record records (meta_json m) of
                  Inl e \<Rightarrow> Inl (e, s)
                | Inr records' \<Rightarrow>
                    (case save_metadata records' s of
                       Inl (e, s1) \<Rightarrow> Inl (e, s1)
                     | Inr s1 \<Rightarrow>
                         Inr (sleep DELAY_BETWEEN_DOWNLOADS_SEC (basic_ack t s1))))))"

text \<open>
  \<open>on_message\<close> from its second line on, applied to the decoded body; the decoding of
  the payload on its first line, outside the \<open>try\<close>, is part of the loop below.
\<close>

definition on_message :: "extractor \<Rightarrow> string \<Rightarrow> delivery \<Rightarrow> state \<Rightarrow> state" where
  "on_message extract_info now d s =
     (let url = strip (body d);
          video_id = or_str (video_id_from_url url) ''unknown''
      in if url = [] then basic_ack (delivery_tag d) s
         else
           (case on_message_try extract_info url (delivery_tag d) s of
              Inr s' \<Rightarrow> s'
            | Inl (e, s1) \<Rightarrow>
                if is_timeout_error e then
                  stop_consuming
                    (basic_nack (delivery_tag d) True (s1\<lparr>timeout_occurred := True\<rparr>))
                else if is_rate_limit_error e then
                  stop_consuming
                    (basic_nack (delivery_tag d) True
                      ((log_error now video_id e s1)\<lparr>rate_limit_occurred := True\<rparr>))
                else
                  sleep DELAY_BETWEEN_DOWNLOADS_SEC
                    (basic_ack (delivery_tag d) (log_error now video_id e s1))))"

subsection \<open>The consuming loop and the exit status\<close>

text \<open>
  With \<open>prefetch_count=1\<close> and manual acknowledgement the broker hands over one delivery
  at a time. What reaches the loop of \<open>start_consuming\<close>, in order:
  \<^item> \<open>Delivered d\<close>: a delivery whose payload is UTF-8, with \<open>body d\<close> the decoded text;
  \<^item> \<open>Not_utf8 t e\<close>: a delivery with tag \<open>t\<close> whose payload is not UTF-8, so
    \<open>body.decode("utf-8")\<close> on the first line of \<open>on_message\<close> raises \<open>e\<close>;
  \<^item> \<open>Interrupted\<close>: Ctrl+C, a \<open>KeyboardInterrupt\<close>;
  \<^item> \<open>Broker_failed e\<close>: the connection or channel fails and the client raises \<open>e\<close>;
  \<^item> \<open>Cancelled\<close>: the broker cancels the consumer.

  The loop runs while the channel has a consumer. It returns once \<open>stop_consuming\<close> was
  called or the consumer was cancelled; an exception leaves it, nothing in the script
  catching it; and with nothing more to come it blocks, which is \<open>Waiting\<close>. \<open>clock\<close> gives
  the timestamp read while the delivery with that tag is handled.
\<close>

datatype event =
  Delivered delivery | Not_utf8 nat failure | Interrupted | Broker_failed failure | Cancelled

datatype raised = KeyboardInterrupt | Error failure

datatype run = Returned state | Raised raised state | Waiting state

fun start_consuming :: "extractor \<Rightarrow> (nat \<Rightarrow> string) \<Rightarrow> event list \<Rightarrow> state \<Rightarrow> run" where
  "start_consuming extract_info clock [] s = Waiting s"
| "start_consuming extract_info clock (Delivered d # evs) s =
     (let s' = on_message extract_info (clock (delivery_tag d)) d s
      in if consuming s' then start_consuming extract_info clock evs s' else Returned s')"
| "start_consuming extract_info clock (Not_utf8 t e # evs) s = Raised (Error e) s"
| "start_consuming extract_info clock (Interrupted # evs) s = Raised KeyboardInterrupt s"
| "start_consuming extract_info clock (Broker_failed e # evs) s = Raised (Error e) s"
| "start_consuming extract_info clock (Cancelled # evs) s = Returned (s\<lparr>consuming := False\<rparr>)"

definition initial_state :: "store_file \<Rightarrow> string list \<Rightarrow> (json \<Rightarrow> write_outcome) \<Rightarrow> state" where
  "initial_state store log dsk =
     \<lparr> metadata_file = store, disk = dsk, error_log = log, calls = [], consuming = True,
       timeout_occurred = False, rate_limit_occurred = False \<rparr>"

text \<open>
  The end of \<open>run_consumer\<close> and of the script, reached when \<open>start_consuming\<close> returns:
  \<open>sys.exit(1)\<close> for either flag, else \<open>run_consumer\<close> returns and the script calls
  \<open>sys.exit(0)\<close>.
\<close>

definition exit_status :: "state \<Rightarrow> nat" where
  "exit_status s = (if timeout_occurred s then 1 else if rate_limit_occurred s then 1 else 0)"

text \<open>
  How the process ends: with an exit status, with the traceback of an exception that
  nothing caught (the status is then not 0), or not at all.
\<close>

datatype finish = Exit nat | Traceback raised | Blocked

definition run_consumer ::
  "extractor \<Rightarrow> (nat \<Rightarrow> string) \<Rightarrow> event list \<Rightarrow> store_file \<Rightarrow> string list
     \<Rightarrow> (json \<Rightarrow> write_outcome) \<Rightarrow> state \<times> finish" where
  "run_consumer extract_info clock evs store log dsk =
     (case start_consuming extract_info clock evs (initial_state store log dsk) of
        Returned s \<Rightarrow> (s, Exit (exit_status s))
      | Raised r s \<Rightarrow> (s, Traceback r)
      | Waiting s \<Rightarrow> (s, Blocked))"

section \<open>The producer: a_q_put_videos.py\<close>

text \<open>
  \<open>links\<close> is the JSON array read from \<open>videos_1.json\<close>. The loop carries the messages
  handed to \<open>basic_publish\<close> (their bodies, in order) and the counter \<open>published\<close>.
\<close>

datatype report = No_links | Published_tasks nat

fun publish_loop :: "json list \<Rightarrow> string list \<times> nat \<Rightarrow> string list \<times> nat" where
  "publish_loop [] acc = acc"
| "publish_loop (url # rest) (queue, published) =
     (if \<not> truthy url \<or> \<not> is_str url then publish_loop rest (queue, published)
      else (case url of
              JStr u \<Rightarrow> publish_loop rest (queue @ [u], published + 1)
            | _ \<Rightarrow> publish_loop rest (queue, published)))"

definition main :: "json list \<Rightarrow> string list \<times> report" where
  "main links =
     (if links = [] then ([], No_links)
      else let (queue, published) = publish_loop links ([], 0)
           in (queue, Published_tasks published))"

section \<open>Notions used to state the properties\<close>

text \<open>
  The failure itself followed by its underlying causes, outermost first, and the
  lexical test that \<open>is_rate_limit_error\<close> applies to one message.
\<close>

fun cause_chain :: "failure \<Rightarrow> failure list" where
  "cause_chain (Failure inst m s c) =
     Failure inst m s c # (case c of None \<Rightarrow> [] | Some inner \<Rightarrow> cause_chain inner)"

definition rate_limit_signature :: "failure \<Rightarrow> bool" where
  "rate_limit_signature e =
     (contains ''429'' (lower (message e)) \<or> contains ''rate limit'' (lower (message e))
      \<or> contains ''too many requests'' (lower (message e)))"

text \<open>
  Handling delivery \<open>d\<close> in state \<open>s\<close> ends in a failure that the handler classifies
  \<open>Timeout\<close> or \<open>RateLimited\<close>.
\<close>

definition halts_on :: "extractor \<Rightarrow> state \<Rightarrow> delivery \<Rightarrow> bool" where
  "halts_on extract_info s d =
     (strip (body d) \<noteq> [] \<and>
      (case on_message_try extract_info (strip (body d)) (delivery_tag d) s of
         Inl (e, s1) \<Rightarrow> classify e = Timeout \<or> classify e = RateLimited
       | Inr s' \<Rightarrow> False))"

text \<open>
  A disk on which every write succeeds, a download that returns nothing, and a clock
  that always reads the same, for the concrete runs below.
\<close>

definition disk_ok :: "json \<Rightarrow> write_outcome" where
  "disk_ok records = Written"

definition returns_nothing :: extractor where
  "returns_nothing url = Inr None"

definition fixed_clock :: "nat \<Rightarrow> string" where
  "fixed_clock t = ''2026-01-01T00:00:00''"

text \<open>
  \<open>json_get k v\<close> is \<open>v.get(k)\<close> on a dict; \<open>id_json\<close> is the JSON form of a record's id.
\<close>

fun json_get :: "string \<Rightarrow> json \<Rightarrow> json option" where
  "json_get k (JObj kvs) = map_of kvs k"
| "json_get k v = None"

definition id_json :: "string option \<Rightarrow> json" where
  "id_json i = (case i of None \<Rightarrow> JNull | Some v \<Rightarrow> JStr v)"

section \<open>Properties of the classifier\<close>

lemma contains_after_first: "contains sep s \<Longrightarrow> \<exists>rest. after_first sep s = Some rest"
  by (induction s) auto

lemma is_timeout_error_unfold:
  "is_timeout_error e =
     (timeout_instance e \<or> contains ''timeout'' (lower (message e))
      \<or> contains ''timed out'' (lower (message e))
      \<or> (case cause e of None \<Rightarrow> False | Some c \<Rightarrow> is_timeout_error c))"
  by (cases e) (auto simp: Let_def message_def split: option.splits)

lemma is_rate_limit_error_unfold:
  "is_rate_limit_error e =
     (contains ''429'' (lower (message e)) \<or> contains ''rate limit'' (lower (message e))
      \<or> contains ''too many requests'' (lower (message e))
      \<or> (case cause e of None \<Rightarrow> False | Some c \<Rightarrow> is_rate_limit_error c))"
  by (cases e) (auto simp: Let_def message_def split: option.splits)

lemma is_timeout_error_cause: "cause e = Some c \<Longrightarrow> is_timeout_error c \<Longrightarrow> is_timeout_error e"
  by (subst is_timeout_error_unfold) simp

lemma is_rate_limit_error_cause:
  "cause e = Some c \<Longrightarrow> is_rate_limit_error c \<Longrightarrow> is_rate_limit_error e"
  by (subst is_rate_limit_error_unfold) simp

text \<open>
  Claim C1. A failure whose message is "Read timed out" is classified \<open>Timeout\<close>. A
  failure whose message is "HTTP Error 429: Too Many Requests", and which is no timeout
  signal (not a timeout instance, no timeout among its causes), is classified
  \<open>RateLimited\<close>. A failure whose message is "Video unavailable", with neither signal in
  its type or causes, is classified \<open>Other\<close>. A failure that wraps a failure with a
  timeout signature is classified \<open>Timeout\<close>. The checks are applied in order: the
  timeout test decides first, the rate-limit test is asked only when it fails, and
  \<open>Other\<close> is what remains.
\<close>

theorem classify_examples:
  "(message e1 = ''Read timed out'' \<longrightarrow> classify e1 = Timeout)
   \<and> (message e2 = ''HTTP Error 429: Too Many Requests'' \<and> \<not> timeout_instance e2
        \<and> (\<forall>c. cause e2 = Some c \<longrightarrow> \<not> is_timeout_error c) \<longrightarrow> classify e2 = RateLimited)
   \<and> (message e3 = ''Video unavailable'' \<and> \<not> timeout_instance e3
        \<and> (\<forall>c. cause e3 = Some c \<longrightarrow> \<not> is_timeout_error c \<and> \<not> is_rate_limit_error c)
        \<longrightarrow> classify e3 = Other)
   \<and> (cause e4 = Some c4 \<and> is_timeout_error c4 \<longrightarrow> classify e4 = Timeout)
   \<and> (classify e = Timeout \<longleftrightarrow> is_timeout_error e)
   \<and> (classify e = RateLimited \<longleftrightarrow> \<not> is_timeout_error e \<and> is_rate_limit_error e)
   \<and> (classify e = Other \<longleftrightarrow> \<not> is_timeout_error e \<and> \<not> is_rate_limit_error e)"
proof (intro conjI impI)
  assume "message e1 = ''Read timed out''"
  then have "is_timeout_error e1"
    by (subst is_timeout_error_unfold) (simp add: lower_def lower_char_def)
  then show "classify e1 = Timeout" by (simp add: classify_def)
next
  assume a: "message e2 = ''HTTP Error 429: Too Many Requests'' \<and> \<not> timeout_instance e2
        \<and> (\<forall>c. cause e2 = Some c \<longrightarrow> \<not> is_timeout_error c)"
  then have "\<not> is_timeout_error e2"
    by (subst is_timeout_error_unfold) (simp add: lower_def lower_char_def split: option.splits)
  moreover from a have "is_rate_limit_error e2"
    by (subst is_rate_limit_error_unfold) (simp add: lower_def lower_char_def)
  ultimately show "classify e2 = RateLimited" by (simp add: classify_def)
next
  assume a: "message e3 = ''Video unavailable'' \<and> \<not> timeout_instance e3
        \<and> (\<forall>c. cause e3 = Some c \<longrightarrow> \<not> is_timeout_error c \<and> \<not> is_rate_limit_error c)"
  then have "\<not> is_timeout_error e3"
    by (subst is_timeout_error_unfold) (simp add: lower_def lower_char_def split: option.splits)
  moreover from a have "\<not> is_rate_limit_error e3"
    by (subst is_rate_limit_error_unfold) (simp add: lower_def lower_char_def split: option.splits)
  ultimately show "classify e3 = Other" by (simp add: classify_def)
next
  assume "cause e4 = Some c4 \<and> is_timeout_error c4"
  then have "is_timeout_error e4" by (blast intro: is_timeout_error_cause)
  then show "classify e4 = Timeout" by (simp add: classify_def)
qed (simp_all add: classify_def)

theorem classify_examples_witness:
  "classify (Failure False None ''Read timed out'' None) = Timeout
   \<and> classify (Failure False None ''HTTP Error 429: Too Many Requests'' None) = RateLimited
   \<and> classify (Failure False None ''Video unavailable'' None) = Other
   \<and> classify (Failure False (Some ''ERROR: unable to download video data'')
                 ''ERROR: unable to download video data''
                 (Some (Failure False None ''Read timed out'' None))) = Timeout"
proof -
  let ?c = "Failure False None ''Read timed out'' None"
  have c: "is_timeout_error ?c"
    by (simp add: message_def lower_def lower_char_def)
  have h1: "message (Failure False None ''Read timed out'' None) = ''Read timed out''"
    by (simp add: message_def)
  have h2: "message (Failure False None ''HTTP Error 429: Too Many Requests'' None)
              = ''HTTP Error 429: Too Many Requests''"
    by (simp add: message_def)
  have h3: "message (Failure False None ''Video unavailable'' None) = ''Video unavailable''"
    by (simp add: message_def)
  show ?thesis
    using h1 h2 h3 c
      classify_examples [of "Failure False None ''Read timed out'' None"
        "Failure False None ''HTTP Error 429: Too Many Requests'' None"
        "Failure False None ''Video unavailable'' None"
        "Failure False (Some ''ERROR: unable to download video data'')
                 ''ERROR: unable to download video data'' (Some ?c)" ?c]
    by simp
qed

section \<open>Properties of the worker\<close>

lemmas effect_defs = basic_ack_def basic_nack_def stop_consuming_def sleep_def


lemma log_error_other [simp]:
  "calls (log_error now v e s) = calls s"
  "metadata_file (log_error now v e s) = metadata_file s"
  "disk (log_error now v e s) = disk s"
  "consuming (log_error now v e s) = consuming s"
  "timeout_occurred (log_error now v e s) = timeout_occurred s"
  "rate_limit_occurred (log_error now v e s) = rate_limit_occurred s"
  by (simp_all add: log_error_def Let_def)

lemma on_message_blank:
  "strip (body d) = [] \<Longrightarrow> on_message x now d s = basic_ack (delivery_tag d) s"
  by (simp add: on_message_def Let_def)

lemma on_message_done:
  "strip (body d) \<noteq> [] \<Longrightarrow> on_message_try x (strip (body d)) (delivery_tag d) s = Inr s'
   \<Longrightarrow> on_message x now d s = s'"
  by (simp add: on_message_def Let_def)

lemma on_message_timeout:
  "strip (body d) \<noteq> [] \<Longrightarrow> on_message_try x (strip (body d)) (delivery_tag d) s = Inl (e, s1)
   \<Longrightarrow> is_timeout_error e
   \<Longrightarrow> on_message x now d s =
       stop_consuming (basic_nack (delivery_tag d) True (s1\<lparr>timeout_occurred := True\<rparr>))"
  by (simp add: on_message_def Let_def)

lemma on_message_rate_limit:
  "strip (body d) \<noteq> [] \<Longrightarrow> on_message_try x (strip (body d)) (delivery_tag d) s = Inl (e, s1)
   \<Longrightarrow> \<not> is_timeout_error e \<Longrightarrow> is_rate_limit_error e
   \<Longrightarrow> on_message x now d s =
       stop_consuming (basic_nack (delivery_tag d) True
         ((log_error now (or_str (video_id_from_url (strip (body d))) ''unknown'') e s1)
            \<lparr>rate_limit_occurred := True\<rparr>))"
  by (simp add: on_message_def Let_def)

lemma on_message_other:
  "strip (body d) \<noteq> [] \<Longrightarrow> on_message_try x (strip (body d)) (delivery_tag d) s = Inl (e, s1)
   \<Longrightarrow> \<not> is_timeout_error e \<Longrightarrow> \<not> is_rate_limit_error e
   \<Longrightarrow> on_message x now d s =
       sleep DELAY_BETWEEN_DOWNLOADS_SEC (basic_ack (delivery_tag d)
         (log_error now (or_str (video_id_from_url (strip (body d))) ''unknown'') e s1))"
  by (simp add: on_message_def Let_def)

lemma append_record_Inr:
  "append_record v m = Inr r \<Longrightarrow> \<exists>xs. v = JArr xs \<and> r = JArr (xs @ [m])"
  by (cases v) auto

lemma save_metadata_Inr:
  "save_metadata r s = Inr s1 \<Longrightarrow>
     disk s r = Written \<and> s1 = s\<lparr>metadata_file := overwrite (metadata_file s) (Document r)\<rparr>"
  by (auto simp: save_metadata_def split: write_outcome.splits)

lemma save_metadata_Inl:
  "save_metadata r s = Inl (e, s1) \<Longrightarrow> \<exists>f. s1 = s\<lparr>metadata_file := f\<rparr>"
  by (cases s) (auto simp: save_metadata_def split: write_outcome.splits)

lemma try_fetch_failure:
  "download_and_collect_metadata x url = Inl e \<Longrightarrow> on_message_try x url t s = Inl (e, s)"
  by (simp add: on_message_try_def)

lemma try_success_cases:
  assumes "on_message_try x url t s = Inr s'"
  shows "(download_and_collect_metadata x url = Inr None
            \<and> s' = sleep DELAY_BETWEEN_DOWNLOADS_SEC (basic_ack t s))
         \<or> (\<exists>m rs. download_and_collect_metadata x url = Inr (Some m)
               \<and> load_metadata (metadata_file s) = Inr (JArr rs)
               \<and> disk s (JArr (rs @ [meta_json m])) = Written
               \<and> s' = sleep DELAY_BETWEEN_DOWNLOADS_SEC
                        (basic_ack t (s\<lparr>metadata_file :=
                           overwrite (metadata_file s) (Document (JArr (rs @ [meta_json m])))\<rparr>)))"
  using assms
  by (auto simp: on_message_try_def
           split: sum.splits option.splits prod.splits
           dest!: append_record_Inr save_metadata_Inr)

text \<open>
  Where the \<open>try\<close> block raises: in the download, in \<open>load_metadata\<close>, in \<open>append\<close>, each with
  the state untouched, or in \<open>save_metadata\<close>, which may have changed the file.
\<close>

lemma try_failure_cases:
  assumes "on_message_try x url t s = Inl (e, s1)"
  shows "(download_and_collect_metadata x url = Inl e \<and> s1 = s)
         \<or> (\<exists>m. download_and_collect_metadata x url = Inr (Some m)
               \<and> ((load_metadata (metadata_file s) = Inl e \<and> s1 = s)
                   \<or> (\<exists>v. load_metadata (metadata_file s) = Inr v
                          \<and> ((append_record v (meta_json m) = Inl e \<and> s1 = s)
                              \<or> (\<exists>v'. append_record v (meta_json m) = Inr v'
                                     \<and> save_metadata v' s = Inl (e, s1))))))"
  using assms
  by (auto simp: on_message_try_def split: sum.splits option.splits prod.splits)

lemma try_failure_state:
  assumes "on_message_try x url t s = Inl (e, s1)"
  shows "\<exists>f. s1 = s\<lparr>metadata_file := f\<rparr>"
proof -
  have same: "\<exists>f. s = s\<lparr>metadata_file := f\<rparr>"
    by (rule exI [of _ "metadata_file s"]) simp
  from try_failure_cases [OF assms] same show ?thesis
    by (auto dest: save_metadata_Inl)
qed

lemma try_success_calls:
  "on_message_try x url t s = Inr s' \<Longrightarrow>
     calls s' = calls s @ [Basic_ack t, Sleep DELAY_BETWEEN_DOWNLOADS_SEC]
     \<and> consuming s' = consuming s \<and> error_log s' = error_log s
     \<and> timeout_occurred s' = timeout_occurred s
     \<and> rate_limit_occurred s' = rate_limit_occurred s"
  by (drule try_success_cases) (auto simp: effect_defs)

lemma classify_Timeout: "classify e = Timeout \<longleftrightarrow> is_timeout_error e"
  by (simp add: classify_def)

lemma classify_RateLimited:
  "classify e = RateLimited \<longleftrightarrow> \<not> is_timeout_error e \<and> is_rate_limit_error e"
  by (simp add: classify_def)

lemma classify_Other:
  "classify e = Other \<longleftrightarrow> \<not> is_timeout_error e \<and> \<not> is_rate_limit_error e"
  by (simp add: classify_def)

lemma start_consuming_stop:
  "\<not> consuming (on_message x (clock (delivery_tag d)) d s) \<Longrightarrow>
     start_consuming x clock (Delivered d # evs) s
       = Returned (on_message x (clock (delivery_tag d)) d s)"
  by (simp add: Let_def)

lemma start_consuming_go:
  "consuming (on_message x (clock (delivery_tag d)) d s) \<Longrightarrow>
     start_consuming x clock (Delivered d # evs) s
       = start_consuming x clock evs (on_message x (clock (delivery_tag d)) d s)"
  by (simp add: Let_def)




lemma try_failure_calls:
  assumes "on_message_try x url t s = Inl (e, s1)"
  shows "calls s1 = calls s \<and> error_log s1 = error_log s \<and> consuming s1 = consuming s
         \<and> timeout_occurred s1 = timeout_occurred s
         \<and> rate_limit_occurred s1 = rate_limit_occurred s \<and> disk s1 = disk s"
  using try_failure_state [OF assms] by auto

lemma handler_store:
  "strip (body d) \<noteq> [] \<Longrightarrow> on_message_try x (strip (body d)) (delivery_tag d) s = Inl (e, s1)
   \<Longrightarrow> metadata_file (on_message x now d s) = metadata_file s1"
  by (simp add: on_message_def Let_def effect_defs)

text \<open>
  Claim C3, as amended. If handling a delivery sends a \<open>basic_ack\<close>, it is for that
  delivery's tag and one of these holds: the payload is empty after trimming; the fetch
  returned nothing; the fetch produced a metadata record, which was appended to the
  loaded list and written to the store; or the failure raised while handling it was
  classified \<open>Other\<close>.
\<close>

theorem ack_only_when_settled:
  assumes acked:
    "Basic_ack t \<in> set (drop (length (calls s)) (calls (on_message extract_info now d s)))"
  shows "t = delivery_tag d \<and>
     (strip (body d) = []
      \<or> (strip (body d) \<noteq> []
           \<and> download_and_collect_metadata extract_info (strip (body d)) = Inr None)
      \<or> (strip (body d) \<noteq> []
           \<and> (\<exists>m rs. download_and_collect_metadata extract_info (strip (body d)) = Inr (Some m)
                 \<and> load_metadata (metadata_file s) = Inr (JArr rs)
                 \<and> disk s (JArr (rs @ [meta_json m])) = Written
                 \<and> metadata_file (on_message extract_info now d s)
                     = overwrite (metadata_file s) (Document (JArr (rs @ [meta_json m])))))
      \<or> (strip (body d) \<noteq> []
           \<and> (\<exists>e s1. on_message_try extract_info (strip (body d)) (delivery_tag d) s
                        = Inl (e, s1)
                 \<and> classify e = Other)))"
proof (cases "strip (body d) = []")
  case True
  with acked show ?thesis
    by (simp add: on_message_blank effect_defs)
next
  case nonblank: False
  show ?thesis
  proof (cases "on_message_try extract_info (strip (body d)) (delivery_tag d) s")
    case (Inr s')
    then have om: "on_message extract_info now d s = s'"
      using nonblank by (simp add: on_message_done)
    from try_success_cases [OF Inr] acked nonblank show ?thesis
      unfolding om by (auto simp: effect_defs)
  next
    case (Inl p)
    obtain e s1 where p: "p = (e, s1)" by (cases p)
    note tb = Inl [unfolded p]
    from try_failure_calls [OF tb] have c1: "calls s1 = calls s" by simp
    show ?thesis
    proof (cases "classify e")
      case Timeout
      then have "is_timeout_error e" by (simp add: classify_Timeout)
      from on_message_timeout [OF nonblank tb this, of now] acked c1 show ?thesis
        by (simp add: effect_defs)
    next
      case RateLimited
      then have "\<not> is_timeout_error e" "is_rate_limit_error e"
        by (simp_all add: classify_RateLimited)
      from on_message_rate_limit [OF nonblank tb this, of now] acked c1 show ?thesis
        by (simp add: effect_defs)
    next
      case Other
      then have "\<not> is_timeout_error e" "\<not> is_rate_limit_error e"
        by (simp_all add: classify_Other)
      from on_message_other [OF nonblank tb this, of now] acked c1
      have "t = delivery_tag d" by (simp add: effect_defs)
      with Other tb nonblank show ?thesis by blast
    qed
  qed
qed

lemmas worker_eval =
  on_message_def on_message_try_def download_and_collect_metadata_def meta_json_def
  save_metadata_def overwrite_def disk_ok_def returns_nothing_def fixed_clock_def
  log_error_def effect_defs initial_state_def or_else_def or_str_def
  video_id_from_url_def before_first_def strip_def is_space_def message_def lower_def
  lower_char_def DELAY_BETWEEN_DOWNLOADS_SEC_def Let_def

theorem ack_only_when_settled_witness:
  "Basic_ack 1 \<in> set (drop (length (calls (initial_state Missing [] disk_ok)))
      (calls (on_message
        (\<lambda>u. Inr (Some \<lparr>info_id = Some ''AAA'', info_channel = Some ''c'', info_uploader = None,
                          info_duration = Some 10, info_title = Some ''t'',
                          info_description = Some ''d''\<rparr>))
        ''2026-01-01T00:00:00'' \<lparr>delivery_tag = 1, body = ''https://x/watch?v=AAA''\<rparr>
        (initial_state Missing [] disk_ok))))
   \<and> metadata_file (on_message
        (\<lambda>u. Inr (Some \<lparr>info_id = Some ''AAA'', info_channel = Some ''c'', info_uploader = None,
                          info_duration = Some 10, info_title = Some ''t'',
                          info_description = Some ''d''\<rparr>))
        ''2026-01-01T00:00:00'' \<lparr>delivery_tag = 1, body = ''https://x/watch?v=AAA''\<rparr>
        (initial_state Missing [] disk_ok))
     = Document (JArr [JObj [(''id'', JStr ''AAA''), (''channel'', JStr ''c''),
                             (''duration'', JNum 10), (''title'', JStr ''t''),
                             (''description'', JStr ''d'')]])"
proof -
  let ?x = "\<lambda>u::string. (Inr (Some \<lparr>info_id = Some ''AAA'', info_channel = Some ''c'',
              info_uploader = None, info_duration = Some 10, info_title = Some ''t'',
              info_description = Some ''d''\<rparr>) :: failure + info option)"
  let ?d = "\<lparr>delivery_tag = 1, body = ''https://x/watch?v=AAA''\<rparr>"
  have h: "Basic_ack 1 \<in> set (drop (length (calls (initial_state Missing [] disk_ok)))
      (calls (on_message ?x ''2026-01-01T00:00:00'' ?d (initial_state Missing [] disk_ok))))"
    by (simp add: worker_eval)
  from ack_only_when_settled [OF h] h show ?thesis
    by (simp add: worker_eval)
qed

text \<open>
  The claim as first stated names three conditions: a record was produced, the task
  was an empty no-op, the failure was classified \<open>Other\<close>. The task below is not empty,
  its fetch returns nothing, so no record is produced and the store stays missing, and
  nothing fails, so nothing is logged; yet it is acknowledged.
\<close>

theorem ack_without_record_counterexample:
  "Basic_ack 1 \<in> set (calls (on_message returns_nothing ''2026-01-01T00:00:00''
        \<lparr>delivery_tag = 1, body = ''https://x/watch?v=AAA''\<rparr>
        (initial_state Missing [] disk_ok)))
   \<and> strip (body \<lparr>delivery_tag = 1, body = ''https://x/watch?v=AAA''\<rparr>) \<noteq> []
   \<and> download_and_collect_metadata returns_nothing
        (strip (body \<lparr>delivery_tag = 1, body = ''https://x/watch?v=AAA''\<rparr>)) = Inr None
   \<and> on_message_try returns_nothing
        (strip (body \<lparr>delivery_tag = 1, body = ''https://x/watch?v=AAA''\<rparr>)) 1
        (initial_state Missing [] disk_ok)
      = Inr (sleep 5 (basic_ack 1 (initial_state Missing [] disk_ok)))
   \<and> metadata_file (on_message returns_nothing ''2026-01-01T00:00:00''
        \<lparr>delivery_tag = 1, body = ''https://x/watch?v=AAA''\<rparr>
        (initial_state Missing [] disk_ok)) = Missing
   \<and> error_log (on_message returns_nothing ''2026-01-01T00:00:00''
        \<lparr>delivery_tag = 1, body = ''https://x/watch?v=AAA''\<rparr>
        (initial_state Missing [] disk_ok)) = []"
  by (simp add: worker_eval)




text \<open>
  Claim C9. When the fetch of a delivery raises, whatever the classification, the
  metadata file is left as it was. The file changes only for a non-empty task whose
  fetch returned a record: loading, appending and saving come after the fetch.
\<close>

theorem store_unchanged_on_failure:
  "(download_and_collect_metadata extract_info (strip (body d)) = Inl e \<longrightarrow>
      metadata_file (on_message extract_info now d s) = metadata_file s)
   \<and> (metadata_file (on_message extract_info now d s) \<noteq> metadata_file s \<longrightarrow>
      strip (body d) \<noteq> []
      \<and> (\<exists>m. download_and_collect_metadata extract_info (strip (body d)) = Inr (Some m)))"
proof -
  have fetch: "metadata_file (on_message extract_info now d s) = metadata_file s"
    if f: "download_and_collect_metadata extract_info (strip (body d)) = Inl e"
  proof (cases "strip (body d) = []")
    case True
    then show ?thesis by (simp add: on_message_blank effect_defs)
  next
    case False
    from handler_store [OF False try_fetch_failure [OF f]] show ?thesis .
  qed
  have changed: "strip (body d) \<noteq> []
      \<and> (\<exists>m. download_and_collect_metadata extract_info (strip (body d)) = Inr (Some m))"
    if neq: "metadata_file (on_message extract_info now d s) \<noteq> metadata_file s"
  proof -
    from neq have nb: "strip (body d) \<noteq> []"
      by (auto simp: on_message_blank effect_defs)
    show ?thesis
    proof (cases "on_message_try extract_info (strip (body d)) (delivery_tag d) s")
      case (Inl p)
      obtain f s1 where p: "p = (f, s1)" by (cases p)
      note tb = Inl [unfolded p]
      from handler_store [OF nb tb] neq have "s1 \<noteq> s" by auto
      with try_failure_cases [OF tb] nb show ?thesis by auto
    next
      case (Inr s')
      with nb have "on_message extract_info now d s = s'" by (simp add: on_message_done)
      with try_success_cases [OF Inr] neq nb show ?thesis
        by (auto simp: effect_defs)
    qed
  qed
  from fetch changed show ?thesis by blast
qed

theorem store_unchanged_on_failure_witness:
  "metadata_file (on_message (\<lambda>u. Inl (Failure False None ''Video unavailable'' None))
      ''2026-01-01T00:00:00'' \<lparr>delivery_tag = 1, body = ''https://x/watch?v=AAA''\<rparr>
      (initial_state (Document (JArr [JNull])) [] disk_ok)) = Document (JArr [JNull])
   \<and> (\<exists>m. download_and_collect_metadata
      (\<lambda>u. Inr (Some \<lparr>info_id = Some ''AAA'', info_channel = None, info_uploader = None,
                        info_duration = None, info_title = None, info_description = None\<rparr>))
      (strip (body \<lparr>delivery_tag = 1, body = ''https://x/watch?v=AAA''\<rparr>)) = Inr (Some m))"
proof -
  let ?d = "\<lparr>delivery_tag = 1, body = ''https://x/watch?v=AAA''\<rparr>"
  let ?o = "Failure False None ''Video unavailable'' None"
  let ?x = "\<lambda>u::string. (Inr (Some \<lparr>info_id = Some ''AAA'', info_channel = None,
              info_uploader = None, info_duration = None, info_title = None,
              info_description = None\<rparr>) :: failure + info option)"
  have h1: "download_and_collect_metadata (\<lambda>u. Inl ?o) (strip (body ?d)) = Inl ?o"
    by (simp add: download_and_collect_metadata_def)
  have h3: "metadata_file (on_message ?x ''2026-01-01T00:00:00'' ?d
              (initial_state Missing [] disk_ok))
              \<noteq> metadata_file (initial_state Missing [] disk_ok)"
    by (simp add: worker_eval)
  show ?thesis
    using store_unchanged_on_failure [of "\<lambda>u. Inl ?o" ?d ?o "''2026-01-01T00:00:00''"
              "initial_state (Document (JArr [JNull])) [] disk_ok"]
          store_unchanged_on_failure [of ?x ?d ?o "''2026-01-01T00:00:00''"
              "initial_state Missing [] disk_ok"]
          h1 h3
    by (simp add: initial_state_def)
qed

lemma is_rate_limit_error_chain:
  "is_rate_limit_error e = (\<exists>c \<in> set (cause_chain e). rate_limit_signature c)"
  by (induction e rule: is_rate_limit_error.induct)
     (auto simp: rate_limit_signature_def Let_def split: option.splits)

text \<open>
  Claim C10. A failure is a rate-limit error as soon as "429" occurs in the lowered
  message of the failure or of any of its transitive causes; without a timeout signal
  it is then classified \<open>RateLimited\<close>. So the failure with the message
  "ERROR: [youtube] a429bcdEFgh: Video unavailable", where "429" is part of a video id
  and which carries neither "rate limit" nor "too many requests" nor a timeout signal,
  is classified \<open>RateLimited\<close>: the worker requeues the task, stops consuming and exits
  with status 1.
\<close>

theorem rate_limit_matches_429_anywhere:
  "(c \<in> set (cause_chain e) \<and> contains ''429'' (lower (message c)) \<longrightarrow> is_rate_limit_error e)
   \<and> (c \<in> set (cause_chain e) \<and> contains ''429'' (lower (message c)) \<and> \<not> is_timeout_error e
        \<longrightarrow> classify e = RateLimited)
   \<and> (strip (body d) \<noteq> [] \<longrightarrow>
        (let e429 = Failure False (Some ''ERROR: [youtube] a429bcdEFgh: Video unavailable'')
                      ''ERROR: [youtube] a429bcdEFgh: Video unavailable'' None;
             s' = on_message (\<lambda>u. Inl e429) now d s
         in \<not> is_timeout_error e429
            \<and> \<not> contains ''rate limit'' (lower (message e429))
            \<and> \<not> contains ''too many requests'' (lower (message e429))
            \<and> classify e429 = RateLimited
            \<and> calls s' = calls s @ [Basic_nack (delivery_tag d) True]
            \<and> \<not> consuming s'
            \<and> exit_status s' = 1))"
proof (intro conjI impI)
  assume a: "c \<in> set (cause_chain e) \<and> contains ''429'' (lower (message c))"
  then show "is_rate_limit_error e"
    by (auto simp: is_rate_limit_error_chain rate_limit_signature_def)
next
  assume a: "c \<in> set (cause_chain e) \<and> contains ''429'' (lower (message c))
             \<and> \<not> is_timeout_error e"
  then have "is_rate_limit_error e"
    by (auto simp: is_rate_limit_error_chain rate_limit_signature_def)
  with a show "classify e = RateLimited" by (simp add: classify_def)
next
  assume nb: "strip (body d) \<noteq> []"
  let ?e = "Failure False (Some ''ERROR: [youtube] a429bcdEFgh: Video unavailable'')
                      ''ERROR: [youtube] a429bcdEFgh: Video unavailable'' None"
  have nt: "\<not> is_timeout_error ?e"
    by (simp add: message_def lower_def lower_char_def)
  have rl: "is_rate_limit_error ?e"
    by (simp add: message_def lower_def lower_char_def)
  have sig: "\<not> contains ''rate limit'' (lower (message ?e))
             \<and> \<not> contains ''too many requests'' (lower (message ?e))"
    by (simp add: message_def lower_def lower_char_def)
  have tb: "on_message_try (\<lambda>u. Inl ?e) (strip (body d)) (delivery_tag d) s = Inl (?e, s)"
    by (simp add: on_message_try_def download_and_collect_metadata_def)
  from on_message_rate_limit [OF nb tb nt rl, of now] nt rl sig
  show "let e429 = ?e; s' = on_message (\<lambda>u. Inl e429) now d s
         in \<not> is_timeout_error e429
            \<and> \<not> contains ''rate limit'' (lower (message e429))
            \<and> \<not> contains ''too many requests'' (lower (message e429))
            \<and> classify e429 = RateLimited
            \<and> calls s' = calls s @ [Basic_nack (delivery_tag d) True]
            \<and> \<not> consuming s'
            \<and> exit_status s' = 1"
    unfolding Let_def by (simp add: classify_def effect_defs exit_status_def)
qed

theorem rate_limit_matches_429_anywhere_witness:
  "classify (Failure False None ''ERROR: unable to download video data''
       (Some (Failure False None ''GET https://host/v/429/manifest failed'' None))) = RateLimited
   \<and> \<not> consuming (on_message
        (\<lambda>u. Inl (Failure False (Some ''ERROR: [youtube] a429bcdEFgh: Video unavailable'')
                      ''ERROR: [youtube] a429bcdEFgh: Video unavailable'' None))
        ''2026-01-01T00:00:00'' \<lparr>delivery_tag = 3, body = ''https://youtu.be/a429bcdEFgh''\<rparr>
        (initial_state Missing [] disk_ok))"
proof -
  let ?c = "Failure False None ''GET https://host/v/429/manifest failed'' None"
  let ?e = "Failure False None ''ERROR: unable to download video data'' (Some ?c)"
  let ?d = "\<lparr>delivery_tag = 3, body = ''https://youtu.be/a429bcdEFgh''\<rparr>"
  have h1: "?c \<in> set (cause_chain ?e) \<and> contains ''429'' (lower (message ?c))
            \<and> \<not> is_timeout_error ?e"
    by (simp add: message_def lower_def lower_char_def)
  have h2: "strip (body ?d) \<noteq> []"
    by (simp add: strip_def is_space_def)
  show ?thesis
    using rate_limit_matches_429_anywhere [of ?c ?e ?d "''2026-01-01T00:00:00''"
            "initial_state Missing [] disk_ok"] h1 h2
    by (simp add: Let_def)
qed

section \<open>The loop and the exit status\<close>

lemma on_message_halts:
  assumes "halts_on x s d"
  shows "\<not> consuming (on_message x now d s)
         \<and> (timeout_occurred (on_message x now d s) \<or> rate_limit_occurred (on_message x now d s))"
proof -
  from assms obtain e s1 where nb: "strip (body d) \<noteq> []"
    and tb: "on_message_try x (strip (body d)) (delivery_tag d) s = Inl (e, s1)"
    and cl: "classify e = Timeout \<or> classify e = RateLimited"
    by (auto simp: halts_on_def split: sum.splits prod.splits)
  show ?thesis
  proof (cases "is_timeout_error e")
    case True
    from on_message_timeout [OF nb tb True, of now] show ?thesis
      by (simp add: effect_defs)
  next
    case False
    with cl have "is_rate_limit_error e" by (simp add: classify_def split: if_splits)
    from on_message_rate_limit [OF nb tb False this, of now] show ?thesis
      by (simp add: effect_defs)
  qed
qed

lemma on_message_continues:
  assumes "\<not> halts_on x s d"
  shows "consuming (on_message x now d s) = consuming s
         \<and> timeout_occurred (on_message x now d s) = timeout_occurred s
         \<and> rate_limit_occurred (on_message x now d s) = rate_limit_occurred s"
proof (cases "strip (body d) = []")
  case True
  then show ?thesis by (simp add: on_message_blank effect_defs)
next
  case nb: False
  show ?thesis
  proof (cases "on_message_try x (strip (body d)) (delivery_tag d) s")
    case (Inr s')
    with nb have "on_message x now d s = s'" by (simp add: on_message_done)
    with try_success_calls [OF Inr] show ?thesis by simp
  next
    case (Inl p)
    obtain e s1 where p: "p = (e, s1)" by (cases p)
    note tb = Inl [unfolded p]
    from assms nb tb have "classify e = Other"
      by (cases "classify e") (simp_all add: halts_on_def)
    then have "\<not> is_timeout_error e" "\<not> is_rate_limit_error e"
      by (simp_all add: classify_Other)
    from on_message_other [OF nb tb this, of now] try_failure_calls [OF tb] show ?thesis
      by (simp add: effect_defs)
  qed
qed

lemma exit_status_returned:
  assumes "consuming s" "\<not> timeout_occurred s" "\<not> rate_limit_occurred s"
    and "start_consuming x clock evs s = Returned s'"
  shows "exit_status s' =
     (if \<exists>pre d post s1. evs = pre @ Delivered d # post
            \<and> start_consuming x clock pre s = Waiting s1 \<and> halts_on x s1 d
      then 1 else 0)"
  using assms
proof (induction evs arbitrary: s)
  case Nil
  then show ?case by simp
next
  case (Cons a evs)
  show ?case
  proof (cases a)
    case (Delivered d)
    let ?s' = "on_message x (clock (delivery_tag d)) d s"
    show ?thesis
    proof (cases "halts_on x s d")
      case True
      from on_message_halts [OF True, of "clock (delivery_tag d)"]
      have stop: "\<not> consuming ?s'" and flag: "timeout_occurred ?s' \<or> rate_limit_occurred ?s'"
        by simp_all
      from stop Cons.prems(4) Delivered have s': "s' = ?s'" by (simp add: Let_def)
      have "a # evs = [] @ Delivered d # evs \<and> start_consuming x clock [] s = Waiting s
            \<and> halts_on x s d"
        using True Delivered by simp
      then have "\<exists>pre d post s1. a # evs = pre @ Delivered d # post
            \<and> start_consuming x clock pre s = Waiting s1 \<and> halts_on x s1 d"
        by blast
      moreover have "exit_status s' = 1"
        using flag s' by (auto simp: exit_status_def)
      ultimately show ?thesis by simp
    next
      case False
      from on_message_continues [OF False, of "clock (delivery_tag d)"] Cons.prems
      have go: "consuming ?s'" and f1: "\<not> timeout_occurred ?s'"
        and f2: "\<not> rate_limit_occurred ?s'"
        by simp_all
      have step: "start_consuming x clock (a # pre) s = start_consuming x clock pre ?s'" for pre
        using go Delivered by (simp add: Let_def)
      have "(\<exists>pre d' post s1. a # evs = pre @ Delivered d' # post
              \<and> start_consuming x clock pre s = Waiting s1 \<and> halts_on x s1 d')
          \<longleftrightarrow> (\<exists>pre d' post s1. evs = pre @ Delivered d' # post
              \<and> start_consuming x clock pre ?s' = Waiting s1 \<and> halts_on x s1 d')"
        (is "?L \<longleftrightarrow> ?R")
      proof
        assume ?L
        then obtain pre d' post s1 where eq: "a # evs = pre @ Delivered d' # post"
          and w: "start_consuming x clock pre s = Waiting s1"
          and h: "halts_on x s1 d'" by blast
        show ?R
        proof (cases pre)
          case Nil
          with eq w h False Delivered show ?thesis by simp
        next
          case (Cons b pre')
          with eq have "b = a" "evs = pre' @ Delivered d' # post" by simp_all
          with w h Cons step [of pre'] show ?thesis by auto
        qed
      next
        assume ?R
        then obtain pre d' post s1 where eq: "evs = pre @ Delivered d' # post"
          and w: "start_consuming x clock pre ?s' = Waiting s1"
          and h: "halts_on x s1 d'" by blast
        from eq have "a # evs = (a # pre) @ Delivered d' # post" by simp
        with w h step [of pre] show ?L by metis
      qed
      moreover from Cons.prems(4) step [of evs]
      have "start_consuming x clock evs ?s' = Returned s'" by simp
      ultimately show ?thesis using Cons.IH [OF go f1 f2] by simp
    qed
  next
    case Cancelled
    with Cons.prems have s': "s' = s\<lparr>consuming := False\<rparr>" by simp
    have "\<not> (\<exists>pre d post s1. a # evs = pre @ Delivered d # post
            \<and> start_consuming x clock pre s = Waiting s1 \<and> halts_on x s1 d)"
    proof
      assume "\<exists>pre d post s1. a # evs = pre @ Delivered d # post
            \<and> start_consuming x clock pre s = Waiting s1 \<and> halts_on x s1 d"
      then obtain pre d post s1 where eq: "a # evs = pre @ Delivered d # post"
        and w: "start_consuming x clock pre s = Waiting s1" by blast
      show False
      proof (cases pre)
        case Nil
        with eq Cancelled show ?thesis by simp
      next
        case (Cons b pre')
        with eq Cancelled have "b = Cancelled" by simp
        with w Cons show ?thesis by simp
      qed
    qed
    moreover have "exit_status s' = 0"
      using s' Cons.prems by (simp add: exit_status_def)
    ultimately show ?thesis by simp
  next
    case (Not_utf8 t e)
    with Cons.prems show ?thesis by simp
  next
    case Interrupted
    with Cons.prems show ?thesis by simp
  next
    case (Broker_failed e)
    with Cons.prems show ?thesis by simp
  qed
qed


text \<open>
  Claim C7, as amended. When \<open>start_consuming\<close> returns, the worker exits with status 1
  if a delivery that the loop handled ended in a failure classified \<open>Timeout\<close> or
  \<open>RateLimited\<close>, and with status 0 if the loop returned for another reason (the
  consumer was cancelled). When the loop is left by an exception (Ctrl+C, a failure of
  the broker, a payload that is not UTF-8), nothing catches it: the process ends with
  its traceback and not with status 0. With nothing more to come the loop blocks and
  the process does not end.
\<close>

theorem exit_status_after_loop:
  "(start_consuming extract_info clock evs (initial_state store log dsk) = Returned s \<longrightarrow>
      snd (run_consumer extract_info clock evs store log dsk) =
        Exit (if \<exists>pre d post s1. evs = pre @ Delivered d # post
                   \<and> start_consuming extract_info clock pre (initial_state store log dsk)
                       = Waiting s1
                   \<and> halts_on extract_info s1 d
              then 1 else 0))
   \<and> (start_consuming extract_info clock evs (initial_state store log dsk) = Raised r s \<longrightarrow>
      snd (run_consumer extract_info clock evs store log dsk) = Traceback r
      \<and> snd (run_consumer extract_info clock evs store log dsk) \<noteq> Exit 0)
   \<and> (start_consuming extract_info clock evs (initial_state store log dsk) = Waiting s \<longrightarrow>
      snd (run_consumer extract_info clock evs store log dsk) = Blocked)"
proof (intro conjI impI)
  assume r: "start_consuming extract_info clock evs (initial_state store log dsk) = Returned s"
  have "exit_status s =
     (if \<exists>pre d post s1. evs = pre @ Delivered d # post
            \<and> start_consuming extract_info clock pre (initial_state store log dsk) = Waiting s1
            \<and> halts_on extract_info s1 d
      then 1 else 0)"
  proof (rule exit_status_returned [OF _ _ _ r])
    show "consuming (initial_state store log dsk)" by (simp add: initial_state_def)
    show "\<not> timeout_occurred (initial_state store log dsk)" by (simp add: initial_state_def)
    show "\<not> rate_limit_occurred (initial_state store log dsk)" by (simp add: initial_state_def)
  qed
  with r show "snd (run_consumer extract_info clock evs store log dsk) =
        Exit (if \<exists>pre d post s1. evs = pre @ Delivered d # post
                   \<and> start_consuming extract_info clock pre (initial_state store log dsk)
                       = Waiting s1
                   \<and> halts_on extract_info s1 d
              then 1 else 0)"
    by (simp add: run_consumer_def)
next
  assume "start_consuming extract_info clock evs (initial_state store log dsk) = Raised r s"
  then show "snd (run_consumer extract_info clock evs store log dsk) = Traceback r"
    and "snd (run_consumer extract_info clock evs store log dsk) \<noteq> Exit 0"
    by (simp_all add: run_consumer_def)
next
  assume "start_consuming extract_info clock evs (initial_state store log dsk) = Waiting s"
  then show "snd (run_consumer extract_info clock evs store log dsk) = Blocked"
    by (simp add: run_consumer_def)
qed

lemmas run_eval = run_consumer_def exit_status_def worker_eval

text \<open>
  The end-to-end run of the specification (a success, an empty payload, then a
  rate-limited fetch) exits with status 1; a run ended by the broker cancelling the
  consumer exits with status 0; a run ended by Ctrl+C ends with the traceback.
\<close>

theorem exit_status_after_loop_witness:
  "snd (run_consumer
     (\<lambda>u. if u = ''https://x/watch?v=AAA''
           then Inr (Some \<lparr>info_id = Some ''AAA'', info_channel = None, info_uploader = None,
                            info_duration = None, info_title = None, info_description = None\<rparr>)
           else Inl (Failure False None ''HTTP Error 429: Too Many Requests'' None))
     fixed_clock
     [Delivered \<lparr>delivery_tag = 1, body = ''https://x/watch?v=AAA''\<rparr>,
      Delivered \<lparr>delivery_tag = 2, body = []\<rparr>,
      Delivered \<lparr>delivery_tag = 3, body = ''https://x/watch?v=BBB''\<rparr>] Missing [] disk_ok)
     = Exit 1
   \<and> snd (run_consumer returns_nothing fixed_clock
       [Delivered \<lparr>delivery_tag = 1, body = ''https://x/watch?v=AAA''\<rparr>, Cancelled]
       Missing [] disk_ok) = Exit 0
   \<and> snd (run_consumer returns_nothing fixed_clock
       [Delivered \<lparr>delivery_tag = 1, body = ''https://x/watch?v=AAA''\<rparr>, Interrupted]
       Missing [] disk_ok) = Traceback KeyboardInterrupt"
proof -
  let ?x = "\<lambda>u. if u = ''https://x/watch?v=AAA''
           then Inr (Some \<lparr>info_id = Some ''AAA'', info_channel = None, info_uploader = None,
                            info_duration = None, info_title = None, info_description = None\<rparr>)
           else Inl (Failure False None ''HTTP Error 429: Too Many Requests'' None)"
  let ?d1 = "\<lparr>delivery_tag = 1, body = ''https://x/watch?v=AAA''\<rparr>"
  let ?d2 = "\<lparr>delivery_tag = 2, body = []\<rparr>"
  let ?d3 = "\<lparr>delivery_tag = 3, body = ''https://x/watch?v=BBB''\<rparr>"
  let ?s0 = "initial_state Missing [] disk_ok"
  let ?s2 = "fst (run_consumer ?x fixed_clock [Delivered ?d1, Delivered ?d2] Missing [] disk_ok)"
  let ?s3 = "fst (run_consumer ?x fixed_clock [Delivered ?d1, Delivered ?d2, Delivered ?d3]
                    Missing [] disk_ok)"
  have w2: "start_consuming ?x fixed_clock [Delivered ?d1, Delivered ?d2] ?s0 = Waiting ?s2"
    by (simp add: run_eval)
  have h3: "halts_on ?x ?s2 ?d3"
    by (simp add: halts_on_def classify_def run_eval)
  have r3: "start_consuming ?x fixed_clock [Delivered ?d1, Delivered ?d2, Delivered ?d3] ?s0
              = Returned ?s3"
    by (simp add: run_eval)
  have "[Delivered ?d1, Delivered ?d2, Delivered ?d3]
          = [Delivered ?d1, Delivered ?d2] @ Delivered ?d3 # []
        \<and> start_consuming ?x fixed_clock [Delivered ?d1, Delivered ?d2] ?s0 = Waiting ?s2
        \<and> halts_on ?x ?s2 ?d3"
    using w2 h3 by simp
  then have ex: "\<exists>pre d post s1. [Delivered ?d1, Delivered ?d2, Delivered ?d3]
          = pre @ Delivered d # post
      \<and> start_consuming ?x fixed_clock pre ?s0 = Waiting s1 \<and> halts_on ?x s1 d"
    by blast
  have first: "snd (run_consumer ?x fixed_clock
        [Delivered ?d1, Delivered ?d2, Delivered ?d3] Missing [] disk_ok) = Exit 1"
    using exit_status_after_loop [of ?x fixed_clock
            "[Delivered ?d1, Delivered ?d2, Delivered ?d3]" Missing "[]" disk_ok ?s3] r3 ex
    by (simp only: if_True)
  have second: "snd (run_consumer returns_nothing fixed_clock [Delivered ?d1, Cancelled]
                  Missing [] disk_ok) = Exit 0"
    by (simp add: run_eval)
  let ?si = "fst (run_consumer returns_nothing fixed_clock [Delivered ?d1, Interrupted]
                    Missing [] disk_ok)"
  have ri: "start_consuming returns_nothing fixed_clock [Delivered ?d1, Interrupted] ?s0
              = Raised KeyboardInterrupt ?si"
    by (simp add: run_eval)
  have third: "snd (run_consumer returns_nothing fixed_clock [Delivered ?d1, Interrupted]
                  Missing [] disk_ok) = Traceback KeyboardInterrupt"
    using exit_status_after_loop [of returns_nothing fixed_clock
            "[Delivered ?d1, Interrupted]" Missing "[]" disk_ok ?si KeyboardInterrupt] ri
    by blast
  from first second third show ?thesis by blast
qed

text \<open>
  The claim as first stated gives status 0 whenever the loop ends for a reason other
  than a \<open>Timeout\<close> or \<open>RateLimited\<close> halt. In the run below the loop is ended by Ctrl+C,
  neither flag is set, and the process ends with the traceback of the
  \<open>KeyboardInterrupt\<close>, not with status 0.
\<close>

theorem exit_zero_counterexample:
  "snd (run_consumer returns_nothing fixed_clock [Interrupted] Missing [] disk_ok)
     = Traceback KeyboardInterrupt
   \<and> snd (run_consumer returns_nothing fixed_clock [Interrupted] Missing [] disk_ok) \<noteq> Exit 0
   \<and> \<not> timeout_occurred
        (fst (run_consumer returns_nothing fixed_clock [Interrupted] Missing [] disk_ok))
   \<and> \<not> rate_limit_occurred
        (fst (run_consumer returns_nothing fixed_clock [Interrupted] Missing [] disk_ok))"
  by (simp add: run_consumer_def initial_state_def)

section \<open>The store across a run\<close>

lemma try_stores_record:
  assumes "download_and_collect_metadata x url = Inr (Some m)"
    and "load_metadata (metadata_file s) = Inr (JArr rs)"
    and "disk s (JArr (rs @ [meta_json m])) = Written"
  shows "on_message_try x url t s =
     Inr (sleep DELAY_BETWEEN_DOWNLOADS_SEC
           (basic_ack t (s\<lparr>metadata_file :=
              overwrite (metadata_file s) (Document (JArr (rs @ [meta_json m])))\<rparr>)))"
  using assms by (simp add: on_message_try_def save_metadata_def)

lemma start_consuming_appends:
  assumes "list_all2 (\<lambda>d m. strip (body d) \<noteq> []
              \<and> download_and_collect_metadata x (strip (body d)) = Inr (Some m)) ds ms"
    and "consuming s"
    and "load_metadata (metadata_file s) = Inr (JArr rs)"
    and "metadata_file s \<noteq> Unreadable"
    and "\<forall>records. disk s records = Written"
  shows "\<exists>s'. start_consuming x clock (map Delivered ds) s = Waiting s'
           \<and> load_metadata (metadata_file s') = Inr (JArr (rs @ map meta_json ms))"
  using assms
proof (induction ds ms arbitrary: s rs rule: list_all2_induct)
  case Nil
  then show ?case by simp
next
  case (Cons d ds m ms)
  let ?s' = "sleep DELAY_BETWEEN_DOWNLOADS_SEC (basic_ack (delivery_tag d)
               (s\<lparr>metadata_file :=
                  overwrite (metadata_file s) (Document (JArr (rs @ [meta_json m])))\<rparr>))"
  from Cons.hyps(1) Cons.prems(2,4)
  have tb: "on_message_try x (strip (body d)) (delivery_tag d) s = Inr ?s'"
    by (simp add: try_stores_record)
  with Cons.hyps(1) have om: "on_message x (clock (delivery_tag d)) d s = ?s'"
    by (simp add: on_message_done)
  have go: "consuming ?s'" using Cons.prems(1) by (simp add: effect_defs)
  have fl: "metadata_file ?s' = Document (JArr (rs @ [meta_json m]))"
    using Cons.prems(3) by (simp add: effect_defs overwrite_def split: store_file.splits)
  then have ld: "load_metadata (metadata_file ?s') = Inr (JArr (rs @ [meta_json m]))"
    and rd: "metadata_file ?s' \<noteq> Unreadable" by simp_all
  have dk: "\<forall>records. disk ?s' records = Written"
    using Cons.prems(4) by (simp add: effect_defs)
  have "start_consuming x clock (map Delivered (d # ds)) s
          = start_consuming x clock (map Delivered ds) ?s'"
    using om go by (simp add: Let_def)
  with Cons.IH [OF go ld rd dk] show ?case by simp
qed

lemma json_get_id: "json_get ''id'' (meta_json m) = Some (id_json (meta_id m))"
  by (simp add: meta_json_def id_json_def)

text \<open>
  Claim C4. Starting from an empty store (no file, an empty file, or the empty list)
  and with every write of the file succeeding, after \<open>N\<close> consecutive deliveries, each a
  non-empty task whose fetch returns a record, \<open>load_metadata\<close> returns exactly \<open>N\<close>
  records, in arrival order, and their ids are the fetched ids. Each step loads the
  whole list, appends one record and saves the whole list. (The ids need not be
  distinct for this to hold.)
\<close>

theorem store_append_invariant:
  assumes empty: "store = Missing \<or> store = Blank \<or> store = Document (JArr [])"
    and writes: "\<forall>records. dsk records = Written"
    and fetched: "list_all2 (\<lambda>d m. strip (body d) \<noteq> []
              \<and> download_and_collect_metadata extract_info (strip (body d)) = Inr (Some m)) ds ms"
  shows "\<exists>records.
           load_metadata (metadata_file
               (fst (run_consumer extract_info clock (map Delivered ds) store log dsk)))
             = Inr (JArr records)
         \<and> records = map meta_json ms
         \<and> length records = length ds
         \<and> map (json_get ''id'') records = map (\<lambda>m. Some (id_json (meta_id m))) ms"
proof -
  have "\<exists>s'. start_consuming extract_info clock (map Delivered ds) (initial_state store log dsk)
                = Waiting s'
          \<and> load_metadata (metadata_file s') = Inr (JArr ([] @ map meta_json ms))"
    using fetched
  proof (rule start_consuming_appends)
    show "consuming (initial_state store log dsk)" by (simp add: initial_state_def)
    show "load_metadata (metadata_file (initial_state store log dsk)) = Inr (JArr [])"
      using empty by (auto simp: initial_state_def)
    show "metadata_file (initial_state store log dsk) \<noteq> Unreadable"
      using empty by (auto simp: initial_state_def)
    show "\<forall>records. disk (initial_state store log dsk) records = Written"
      using writes by (simp add: initial_state_def)
  qed
  then obtain s' where
    w: "start_consuming extract_info clock (map Delivered ds) (initial_state store log dsk)
          = Waiting s'"
    and l: "load_metadata (metadata_file s') = Inr (JArr (map meta_json ms))" by auto
  have "length ms = length ds"
    using fetched by (simp add: list_all2_lengthD)
  with w l show ?thesis
    by (simp add: run_consumer_def json_get_id comp_def)
qed

theorem store_append_invariant_witness:
  "load_metadata (metadata_file (fst (run_consumer
      (\<lambda>u. Inr (Some \<lparr>info_id = None, info_channel = None, info_uploader = Some ''up'',
                        info_duration = Some 61, info_title = Some ''T'',
                        info_description = None\<rparr>))
      fixed_clock
      (map Delivered [\<lparr>delivery_tag = 1, body = ''https://x/watch?v=AAA''\<rparr>,
                      \<lparr>delivery_tag = 2, body = ''https://youtu.be/BBB?t=1''\<rparr>])
      Blank [] disk_ok)))
   = Inr (JArr
      [JObj [(''id'', JStr ''AAA''), (''channel'', JStr ''up''), (''duration'', JNum 61),
             (''title'', JStr ''T''), (''description'', JStr [])],
       JObj [(''id'', JStr ''BBB''), (''channel'', JStr ''up''), (''duration'', JNum 61),
             (''title'', JStr ''T''), (''description'', JStr [])]])"
proof -
  let ?x = "\<lambda>u::string. (Inr (Some \<lparr>info_id = None, info_channel = None,
              info_uploader = Some ''up'', info_duration = Some 61, info_title = Some ''T'',
              info_description = None\<rparr>) :: failure + info option)"
  let ?d1 = "\<lparr>delivery_tag = 1, body = ''https://x/watch?v=AAA''\<rparr>"
  let ?d2 = "\<lparr>delivery_tag = 2, body = ''https://youtu.be/BBB?t=1''\<rparr>"
  let ?m1 = "\<lparr>meta_id = Some ''AAA'', meta_channel = ''up'', meta_duration = Some 61,
              meta_title = ''T'', meta_description = []\<rparr>"
  let ?m2 = "\<lparr>meta_id = Some ''BBB'', meta_channel = ''up'', meta_duration = Some 61,
              meta_title = ''T'', meta_description = []\<rparr>"
  have h1: "Blank = Missing \<or> Blank = Blank \<or> Blank = Document (JArr [])" by simp
  have h2: "\<forall>records. disk_ok records = Written" by (simp add: disk_ok_def)
  have h3: "list_all2 (\<lambda>d m. strip (body d) \<noteq> []
              \<and> download_and_collect_metadata ?x (strip (body d)) = Inr (Some m))
            [?d1, ?d2] [?m1, ?m2]"
    by (simp add: download_and_collect_metadata_def or_else_def or_str_def
          video_id_from_url_def before_first_def strip_def is_space_def)
  from store_append_invariant [OF h1 h2 h3, of fixed_clock "[]"]
  show ?thesis
    by (simp add: meta_json_def)
qed

section \<open>Properties of the producer\<close>

lemma publish_loop_acc:
  "map JStr (fst (publish_loop links (queue, published)))
     = map JStr queue @ filter (\<lambda>v. is_str v \<and> truthy v) links
   \<and> snd (publish_loop links (queue, published))
     = published + length (filter (\<lambda>v. is_str v \<and> truthy v) links)"
proof (induction links arbitrary: queue published)
  case Nil
  show ?case by simp
next
  case (Cons url rest)
  show ?case
    by (cases url) (simp_all add: Cons.IH)
qed

text \<open>
  Claim C6. For every input list the messages published are exactly the entries that
  are non-empty strings, in order, so their number is the number of such entries, and
  that number is the count the producer reports; entries that are empty or not strings
  are skipped. (For the empty list nothing is published and the producer reports that
  there are no links.)
\<close>

theorem published_count_is_wellformed_count:
  "map JStr (fst (main links)) = filter (\<lambda>v. is_str v \<and> truthy v) links
   \<and> length (fst (main links)) = length (filter (\<lambda>v. is_str v \<and> truthy v) links)
   \<and> (links \<noteq> [] \<longrightarrow>
        snd (main links) = Published_tasks (length (filter (\<lambda>v. is_str v \<and> truthy v) links)))
   \<and> (links = [] \<longrightarrow> snd (main links) = No_links)"
proof -
  obtain q n where pl: "publish_loop links ([], 0) = (q, n)"
    by (cases "publish_loop links ([], 0)")
  from publish_loop_acc [of links "[]" 0] pl
  have q: "map JStr q = filter (\<lambda>v. is_str v \<and> truthy v) links"
    and n: "n = length (filter (\<lambda>v. is_str v \<and> truthy v) links)" by simp_all
  from q have "length (map JStr q) = length (filter (\<lambda>v. is_str v \<and> truthy v) links)"
    by simp
  then have len: "length q = length (filter (\<lambda>v. is_str v \<and> truthy v) links)" by simp
  show ?thesis
  proof (cases "links = []")
    case True
    then show ?thesis by (simp add: main_def)
  next
    case False
    then show ?thesis using pl q n len by (simp add: main_def)
  qed
qed

theorem published_count_is_wellformed_count_witness:
  "main [JStr ''https://x/watch?v=AAA'', JStr [], JNum 3, JNull, JArr [JStr ''u''],
         JStr ''https://x/watch?v=BBB'']
     = ([''https://x/watch?v=AAA'', ''https://x/watch?v=BBB''], Published_tasks 2)
   \<and> main [] = ([], No_links)"
proof -
  let ?l = "[JStr ''https://x/watch?v=AAA'', JStr [], JNum 3, JNull, JArr [JStr ''u''],
         JStr ''https://x/watch?v=BBB'']"
  have ne: "?l \<noteq> []" by simp
  from published_count_is_wellformed_count [of ?l] ne
       published_count_is_wellformed_count [of "[]"]
  show ?thesis
    by (simp add: main_def)
qed

section \<open>Loading the store\<close>

text \<open>
  Claim C5. \<open>load_metadata\<close> returns the empty list for a missing file, a blank file, a
  file on which \<open>json.loads\<close> fails and a file that cannot be opened. On a file whose
  bytes are not UTF-8 it does not: the \<open>UnicodeDecodeError\<close> of \<open>f.read()\<close> is not among
  the exceptions the function catches, so it is raised to the caller.
\<close>

theorem load_metadata_raises_on_undecodable:
  "load_metadata Missing = Inr (JArr [])
   \<and> load_metadata Blank = Inr (JArr [])
   \<and> load_metadata Malformed = Inr (JArr [])
   \<and> load_metadata Unreadable = Inr (JArr [])
   \<and> load_metadata (Undecodable t) = Inl (Failure False None t None)
   \<and> load_metadata (Undecodable t) \<noteq> Inr (JArr [])"
  by simp

end
